theory Spec2Isabelle
  imports Complex_Main
begin

section \<open>Feature store and builder (interactions/features.ts)\<close>

text \<open>
  Numbers of the source are IEEE doubles (and single-precision floats once stored in a
  \<^verbatim>\<open>Float32Array\<close>); coordinates, distances and angles are idealised as \<open>real\<close>
  here. Atom and feature indices are \<open>nat\<close>; they are assumed to fit the typed arrays
  (\<^verbatim>\<open>Uint32Array\<close>, \<^verbatim>\<open>Int32Array\<close>) that store them.
\<close>

text \<open>
  Modelled from the spec: the enum \<^verbatim>\<open>FeatureType\<close> of \<^verbatim>\<open>./common\<close>, which is not
  among the sources; the enumerators are those the specification lists.
\<close>

datatype FeatureType =
    HydrogenDonor | HydrogenAcceptor | HalogenDonor | HalogenAcceptor
  | NegativeCharge | PositiveCharge | AromaticRing | HydrophobicAtom
  | WeakHydrogenDonor | WeakHydrogenAcceptor | IonicTypePartner

text \<open>
  Modelled from the spec: \<^verbatim>\<open>FeatureGroup\<close> of \<^verbatim>\<open>./common\<close> (not among the sources),
  a secondary classifier bitmask; the providers modelled here only use
  \<^verbatim>\<open>FeatureGroup.None\<close>.
\<close>

type_synonym FeatureGroup = nat

definition FeatureGroup_None :: FeatureGroup where
  "FeatureGroup_None = 0"

text \<open>
  Modelled from the spec: \<^verbatim>\<open>ChunkedArray\<close> of \<^verbatim>\<open>mol-data/util\<close> (not among the
  sources), a growable buffer: \<^verbatim>\<open>add\<close> appends one element, \<^verbatim>\<open>elementCount\<close> is the
  number of elements added, \<^verbatim>\<open>compact\<close> returns the elements as an array of exact size.
\<close>

definition ChunkedArray_add :: "'a list \<Rightarrow> 'a \<Rightarrow> 'a list" where
  "ChunkedArray_add a v = a @ [v]"

definition elementCount :: "'a list \<Rightarrow> nat" where
  "elementCount a = length a"

definition ChunkedArray_compact :: "'a list \<Rightarrow> 'a list" where
  "ChunkedArray_compact a = a"

text \<open>\<^verbatim>\<open>Features.Data\<close>: the columnar arrays of one unit's features.\<close>

record Features =
  f_count :: nat
  f_x :: "real list"
  f_y :: "real list"
  f_z :: "real list"
  f_types :: "FeatureType list"
  f_groups :: "FeatureGroup list"
  f_offsets :: "nat list"
  f_members :: "nat list"

text \<open>\<^verbatim>\<open>interface State { x, y, z, offset, count }\<close> of the builder.\<close>

record State =
  state_x :: real
  state_y :: real
  state_z :: real
  state_offset :: nat
  state_count :: nat

text \<open>
  The variables a builder closes over: the seven chunked arrays and the running state.
\<close>

record FeaturesBuilder =
  xCenters :: "real list"
  yCenters :: "real list"
  zCenters :: "real list"
  types :: "FeatureType list"
  groups :: "FeatureGroup list"
  offsets :: "nat list"
  members :: "nat list"
  state :: State

text \<open>
  \<^verbatim>\<open>FeaturesBuilder.create(initialCount, chunkSize)\<close>, called without the optional
  \<^verbatim>\<open>features\<close> argument: all arrays start empty; the two numbers only size buffers.
\<close>

definition create :: "nat \<Rightarrow> nat \<Rightarrow> FeaturesBuilder" where
  "create initialCount chunkSize =
     \<lparr>xCenters = [], yCenters = [], zCenters = [], types = [], groups = [],
      offsets = [], members = [],
      state = \<lparr>state_x = 0, state_y = 0, state_z = 0, state_offset = 0, state_count = 0\<rparr>\<rparr>"

definition clearState :: "FeaturesBuilder \<Rightarrow> FeaturesBuilder" where
  "clearState b =
     b\<lparr>state := \<lparr>state_x = 0, state_y = 0, state_z = 0,
                  state_offset = elementCount (members b), state_count = 0\<rparr>\<rparr>"

text \<open>
  \<^verbatim>\<open>pushMember\<close> appends the member and adds the coordinates to the running sums.
  It does not touch \<^verbatim>\<open>state.count\<close>: the source has no such assignment.
\<close>

definition pushMember :: "real \<Rightarrow> real \<Rightarrow> real \<Rightarrow> nat \<Rightarrow> FeaturesBuilder \<Rightarrow> FeaturesBuilder" where
  "pushMember x y z member b =
     b\<lparr>members := ChunkedArray_add (members b) member,
       state := (state b)\<lparr>state_x := state_x (state b) + x,
                          state_y := state_y (state b) + y,
                          state_z := state_z (state b) + z\<rparr>\<rparr>"

definition addState :: "FeatureType \<Rightarrow> FeatureGroup \<Rightarrow> FeaturesBuilder \<Rightarrow> FeaturesBuilder" where
  "addState type grp b =
     (let count = state_count (state b) in
      if count = 0 then b
      else b\<lparr>types := ChunkedArray_add (types b) type,
             groups := ChunkedArray_add (groups b) grp,
             xCenters := ChunkedArray_add (xCenters b) (state_x (state b) / real count),
             yCenters := ChunkedArray_add (yCenters b) (state_y (state b) / real count),
             zCenters := ChunkedArray_add (zCenters b) (state_z (state b) / real count),
             offsets := ChunkedArray_add (offsets b) (state_offset (state b))\<rparr>)"

definition addOne ::
  "FeatureType \<Rightarrow> FeatureGroup \<Rightarrow> real \<Rightarrow> real \<Rightarrow> real \<Rightarrow> nat \<Rightarrow> FeaturesBuilder \<Rightarrow> FeaturesBuilder" where
  "addOne type grp x y z member b =
     b\<lparr>types := ChunkedArray_add (types b) type,
       groups := ChunkedArray_add (groups b) grp,
       xCenters := ChunkedArray_add (xCenters b) x,
       yCenters := ChunkedArray_add (yCenters b) y,
       zCenters := ChunkedArray_add (zCenters b) z,
       offsets := ChunkedArray_add (offsets b) (elementCount (members b)),
       members := ChunkedArray_add (members b) member\<rparr>"

text \<open>
  \<^verbatim>\<open>getFeatures\<close> first appends the closing offset to the builder's own
  \<^verbatim>\<open>offsets\<close>, then compacts every array. \<open>getFeatures_builder\<close> is the builder the
  call leaves behind, \<open>getFeatures\<close> the value it returns; a second call on the same
  builder therefore returns one more offset than the first. The lazily computed
  \<^verbatim>\<open>lookup3d\<close> and \<^verbatim>\<open>elementsIndex\<close> of the returned value are functions of these
  arrays and are modelled separately.
\<close>

definition getFeatures_builder :: "FeaturesBuilder \<Rightarrow> FeaturesBuilder" where
  "getFeatures_builder b =
     b\<lparr>offsets := ChunkedArray_add (offsets b) (elementCount (members b))\<rparr>"

definition getFeatures :: "nat \<Rightarrow> FeaturesBuilder \<Rightarrow> Features" where
  "getFeatures elementsCount b =
     (let b' = getFeatures_builder b in
      \<lparr>f_count = elementCount (xCenters b'),
       f_x = ChunkedArray_compact (xCenters b'),
       f_y = ChunkedArray_compact (yCenters b'),
       f_z = ChunkedArray_compact (zCenters b'),
       f_types = ChunkedArray_compact (types b'),
       f_groups = ChunkedArray_compact (groups b'),
       f_offsets = ChunkedArray_compact (offsets b'),
       f_members = ChunkedArray_compact (members b')\<rparr>)"

text \<open>A call of one of the four mutators, and a sequence of calls run in order.\<close>

datatype BuilderCall =
    ClearState
  | PushMember real real real nat
  | AddState FeatureType FeatureGroup
  | AddOne FeatureType FeatureGroup real real real nat

fun call :: "BuilderCall \<Rightarrow> FeaturesBuilder \<Rightarrow> FeaturesBuilder" where
  "call ClearState b = clearState b"
| "call (PushMember x y z m) b = pushMember x y z m b"
| "call (AddState t g) b = addState t g b"
| "call (AddOne t g x y z m) b = addOne t g x y z m b"

fun calls :: "BuilderCall list \<Rightarrow> FeaturesBuilder \<Rightarrow> FeaturesBuilder" where
  "calls [] b = b"
| "calls (c # cs) b = calls cs (call c b)"


text \<open>
  The range of feature \<open>i\<close> in \<^verbatim>\<open>members\<close>, as the interface documents it:
  "range for feature i is offsets[i] to offsets[i + 1]".
\<close>

definition feature_members :: "Features \<Rightarrow> nat \<Rightarrow> nat list" where
  "feature_members f i =
     take (f_offsets f ! (i + 1) - f_offsets f ! i) (drop (f_offsets f ! i) (f_members f))"

text \<open>
  The member atoms recorded for each feature, following the specification's words and not
  the code: \<^verbatim>\<open>pushMember\<close> records a member of the feature being accumulated,
  \<^verbatim>\<open>addState\<close> finalizes the accumulated members as one feature (a no-op if none was
  pushed) and resets, \<^verbatim>\<open>clearState\<close> discards them, \<^verbatim>\<open>addOne\<close> is a single-atom
  feature. The second argument is the list of members accumulated so far.
\<close>

fun spec_recorded_members :: "BuilderCall list \<Rightarrow> nat list \<Rightarrow> nat list list" where
  "spec_recorded_members [] pending = []"
| "spec_recorded_members (ClearState # cs) pending = spec_recorded_members cs []"
| "spec_recorded_members (PushMember x y z m # cs) pending =
     spec_recorded_members cs (pending @ [m])"
| "spec_recorded_members (AddState t g # cs) pending =
     (if pending = [] then spec_recorded_members cs []
      else pending # spec_recorded_members cs [])"
| "spec_recorded_members (AddOne t g x y z m # cs) pending =
     [m] # spec_recorded_members cs []"

text \<open>
  The call sequences in which \<^verbatim>\<open>addState\<close> is never called on pushed members: the
  flag says whether a member has been pushed since the last \<^verbatim>\<open>clearState\<close>. On these
  sequences every \<^verbatim>\<open>addState\<close> is the no-op on nothing pushed, whether or not
  \<^verbatim>\<open>pushMember\<close> counts what it pushes.
\<close>

fun no_addState_on_pushed :: "BuilderCall list \<Rightarrow> bool \<Rightarrow> bool" where
  "no_addState_on_pushed [] pushed = True"
| "no_addState_on_pushed (ClearState # cs) pushed = no_addState_on_pushed cs False"
| "no_addState_on_pushed (PushMember x y z m # cs) pushed = no_addState_on_pushed cs True"
| "no_addState_on_pushed (AddState t g # cs) pushed =
     (\<not> pushed \<and> no_addState_on_pushed cs False)"
| "no_addState_on_pushed (AddOne t g x y z m # cs) pushed = no_addState_on_pushed cs pushed"

text \<open>The members pushed before the first \<^verbatim>\<open>addOne\<close> of a call sequence.\<close>

fun pushes_before_first :: "BuilderCall list \<Rightarrow> nat list" where
  "pushes_before_first [] = []"
| "pushes_before_first (PushMember x y z m # cs) = m # pushes_before_first cs"
| "pushes_before_first (AddOne t g x y z m # cs) = []"
| "pushes_before_first (c # cs) = pushes_before_first cs"

text \<open>
  For every \<^verbatim>\<open>addOne\<close> of a call sequence, in order, the members pushed after it and
  before the next \<^verbatim>\<open>addOne\<close>.
\<close>

fun pushes_after :: "BuilderCall list \<Rightarrow> nat list list" where
  "pushes_after [] = []"
| "pushes_after (AddOne t g x y z m # cs) = pushes_before_first cs # pushes_after cs"
| "pushes_after (c # cs) = pushes_after cs"

section \<open>The reverse index (Features.createElementsIndex)\<close>

text \<open>
  \<^verbatim>\<open>ArrayLike\<close> reads: an index outside the array reads \<^verbatim>\<open>undefined\<close>, here \<open>None\<close>.
  A write outside a typed array is ignored, as \<open>xs[i := v]\<close> is in HOL.
\<close>

definition aget :: "'a list \<Rightarrow> nat \<Rightarrow> 'a option" where
  "aget xs i = (if i < length xs then Some (xs ! i) else None)"

text \<open>\<^verbatim>\<open>++arr[a]\<close> on a typed array; \<open>a\<close> may be \<^verbatim>\<open>undefined\<close>.\<close>

definition increment :: "nat list \<Rightarrow> nat option \<Rightarrow> nat list" where
  "increment arr a =
     (case a of None \<Rightarrow> arr
      | Some k \<Rightarrow> (case aget arr k of None \<Rightarrow> arr | Some v \<Rightarrow> arr[k := v + 1]))"

record ElementsIndex =
  ei_indices :: "nat list"
  ei_offsets :: "nat list"

text \<open>First loop: \<^verbatim>\<open>for (let i = 0; i < count; ++i) ++bucketSizes[members[i]]\<close>.\<close>

definition countBuckets :: "nat list \<Rightarrow> nat \<Rightarrow> nat \<Rightarrow> nat list" where
  "countBuckets members' count elementsCount =
     fold (\<lambda>i bucketSizes. increment bucketSizes (aget members' i))
       [0..<count] (replicate elementsCount 0)"

text \<open>
  Second loop: the running sum of the bucket sizes, written to \<^verbatim>\<open>offsets[i]\<close>; the
  pair is (\<^verbatim>\<open>offsets\<close>, \<^verbatim>\<open>offset\<close>). Then \<^verbatim>\<open>offsets[elementsCount] = offset\<close>.
\<close>

definition fillOffsets :: "nat list \<Rightarrow> nat \<Rightarrow> nat list \<times> nat" where
  "fillOffsets bucketSizes elementsCount =
     (let (offs, offset) =
        fold (\<lambda>i (offs, offset). (offs[i := offset], offset + bucketSizes ! i))
          [0..<elementsCount] (replicate (elementsCount + 1) 0, 0)
      in (offs[elementsCount := offset], offset))"

text \<open>
  Body of the inner loop of the third loop nest, for feature \<open>i\<close> and position \<open>j\<close>;
  the state is (\<^verbatim>\<open>indices\<close>, \<^verbatim>\<open>bucketFill\<close>). When \<^verbatim>\<open>members[j]\<close>,
  \<^verbatim>\<open>offsets[a]\<close> or \<^verbatim>\<open>bucketFill[a]\<close> is \<^verbatim>\<open>undefined\<close> the index \<^verbatim>\<open>oa\<close> is not a
  number and both writes are ignored.
\<close>

definition placeMember ::
  "nat list \<Rightarrow> nat list \<Rightarrow> nat \<Rightarrow> nat \<Rightarrow> nat list \<times> nat list \<Rightarrow> nat list \<times> nat list" where
  "placeMember members' offs i j st =
     (case st of (indices, bucketFill) \<Rightarrow>
        (case aget members' j of None \<Rightarrow> (indices, bucketFill)
         | Some a \<Rightarrow>
            (case (aget offs a, aget bucketFill a) of
               (Some oa, Some k) \<Rightarrow> (indices[oa + k := i], bucketFill[a := k + 1])
             | _ \<Rightarrow> (indices, increment bucketFill (Some a)))))"

text \<open>
  The range \<^verbatim>\<open>j = featureOffsets[i] .. featureOffsets[i + 1] - 1\<close>; the loop does not run
  when either bound is \<^verbatim>\<open>undefined\<close>.
\<close>

definition featureRange :: "nat list \<Rightarrow> nat \<Rightarrow> nat list" where
  "featureRange featureOffsets i =
     (case (aget featureOffsets i, aget featureOffsets (i + 1)) of
        (Some j, Some jl) \<Rightarrow> [j..<jl]
      | _ \<Rightarrow> [])"

definition createElementsIndex :: "Features \<Rightarrow> nat \<Rightarrow> ElementsIndex" where
  "createElementsIndex data elementsCount =
     (let bucketSizes = countBuckets (f_members data) (f_count data) elementsCount;
          (offs, offset) = fillOffsets bucketSizes elementsCount;
          (indices, bucketFill) =
            fold (\<lambda>i st. fold (placeMember (f_members data) offs i)
                             (featureRange (f_offsets data) i) st)
              [0..<f_count data] (replicate offset 0, replicate elementsCount 0)
      in \<lparr>ei_indices = indices, ei_offsets = offs\<rparr>)"

text \<open>
  The features listed for unit element \<open>a\<close>: "range for unit element i is offsets[i] to
  offsets[i + 1]".
\<close>

definition element_features :: "ElementsIndex \<Rightarrow> nat \<Rightarrow> nat list" where
  "element_features ei a =
     take (ei_offsets ei ! (a + 1) - ei_offsets ei ! a) (drop (ei_offsets ei ! a) (ei_indices ei))"


section \<open>Structure, units and chemistry helpers\<close>

text \<open>
  \<^verbatim>\<open>Unit.Atomic\<close>, as far as the providers and testers read it: \<^verbatim>\<open>unit.id\<close>,
  \<^verbatim>\<open>unit.elements\<close> (unit index to atom index), \<^verbatim>\<open>unit.residueIndex\<close> and the
  coordinate arrays of \<^verbatim>\<open>unit.model.atomicConformation\<close>, both read by atom index.
\<close>

record Unit =
  unit_id :: nat
  elements :: "nat list"
  residueIndex :: "nat \<Rightarrow> nat"
  conformation_x :: "nat \<Rightarrow> real"
  conformation_y :: "nat \<Rightarrow> real"
  conformation_z :: "nat \<Rightarrow> real"

type_synonym ElementSymbol = string

text \<open>
  Modelled from the spec: the element table \<^verbatim>\<open>Elements\<close> of
  \<^verbatim>\<open>model/properties/atomic/types\<close> (not among the sources); element symbols are
  upper-case strings.
\<close>

definition Elements_C :: ElementSymbol where "Elements_C = ''C''"
definition Elements_N :: ElementSymbol where "Elements_N = ''N''"
definition Elements_O :: ElementSymbol where "Elements_O = ''O''"
definition Elements_P :: ElementSymbol where "Elements_P = ''P''"
definition Elements_S :: ElementSymbol where "Elements_S = ''S''"
definition Elements_CL :: ElementSymbol where "Elements_CL = ''CL''"
definition Elements_BR :: ElementSymbol where "Elements_BR = ''BR''"
definition Elements_I :: ElementSymbol where "Elements_I = ''I''"
definition Elements_AT :: ElementSymbol where "Elements_AT = ''AT''"

text \<open>
  The structure, with the collaborators that are not among the sources taken as
  parameters: \<^verbatim>\<open>typeSymbol(unit, index)\<close>, \<^verbatim>\<open>altLoc(unit, index)\<close> (the empty string
  when the atom has no alternate location) and \<^verbatim>\<open>eachBondedAtom(structure, unit, index, cb)\<close>
  (here the list of bonded atoms the callback is called with, in order) of
  \<^verbatim>\<open>chemistry/util\<close>, \<^verbatim>\<open>calcAngles(structure, unitA, indexA, unitB, indexB)\<close> of
  \<^verbatim>\<open>chemistry/geometry\<close>, and the units' ideal geometries of the valence model
  (\<open>None\<close> when the structure has no valence model, or none for the unit id).
\<close>

record Structure =
  typeSymbol :: "Unit \<Rightarrow> nat \<Rightarrow> ElementSymbol"
  altLoc :: "Unit \<Rightarrow> nat \<Rightarrow> string"
  eachBondedAtom :: "Unit \<Rightarrow> nat \<Rightarrow> (Unit \<times> nat) list"
  calcAngles :: "Unit \<Rightarrow> nat \<Rightarrow> Unit \<Rightarrow> nat \<Rightarrow> real list"
  valenceModel :: "(nat \<Rightarrow> int list option) option"

text \<open>Modelled from the spec: \<^verbatim>\<open>degToRad\<close> of \<^verbatim>\<open>mol-math/misc\<close> (not among the sources).\<close>

definition degToRad :: "real \<Rightarrow> real" where
  "degToRad deg = deg * pi / 180"

section \<open>Halogen bonds (interactions/halogen-bonds.ts)\<close>

definition halBondElements :: "ElementSymbol list" where
  "halBondElements = [Elements_CL, Elements_BR, Elements_I, Elements_AT]"

definition addUnitHalogenDonors :: "Structure \<Rightarrow> Unit \<Rightarrow> FeaturesBuilder \<Rightarrow> FeaturesBuilder" where
  "addUnitHalogenDonors structure unit builder =
     fold (\<lambda>i b.
        let element = typeSymbol structure unit i in
        if element \<in> set halBondElements
        then addOne HalogenDonor FeatureGroup_None
               (conformation_x unit (elements unit ! i))
               (conformation_y unit (elements unit ! i))
               (conformation_z unit (elements unit ! i)) i b
        else b)
       [0..<length (elements unit)] builder"

definition X :: "ElementSymbol list" where
  "X = [Elements_N, Elements_O, Elements_S]"

definition Y :: "ElementSymbol list" where
  "Y = [Elements_C, Elements_N, Elements_P, Elements_S]"

text \<open>
  The callback of \<^verbatim>\<open>eachBondedAtom\<close> sets \<^verbatim>\<open>flag\<close> when a bonded atom's element is in
  \<^verbatim>\<open>Y\<close>; \<open>bondedFlag\<close> is the flag after the last callback.
\<close>

definition bondedFlag :: "Structure \<Rightarrow> Unit \<Rightarrow> nat \<Rightarrow> bool" where
  "bondedFlag structure unit i =
     fold (\<lambda>(unitB, indexB) flag. if typeSymbol structure unitB indexB \<in> set Y then True else flag)
       (eachBondedAtom structure unit i) False"

definition addUnitHalogenAcceptors :: "Structure \<Rightarrow> Unit \<Rightarrow> FeaturesBuilder \<Rightarrow> FeaturesBuilder" where
  "addUnitHalogenAcceptors structure unit builder =
     fold (\<lambda>i b.
        let element = typeSymbol structure unit i in
        if element \<in> set X
        then (if bondedFlag structure unit i
              then addOne HalogenAcceptor FeatureGroup_None
                     (conformation_x unit (elements unit ! i))
                     (conformation_y unit (elements unit ! i))
                     (conformation_z unit (elements unit ! i)) i b
              else b)
        else b)
       [0..<length (elements unit)] builder"

definition isHalogenBond :: "FeatureType \<Rightarrow> FeatureType \<Rightarrow> bool" where
  "isHalogenBond ti tj \<longleftrightarrow>
     (ti = HalogenAcceptor \<and> tj = HalogenDonor) \<or> (ti = HalogenDonor \<and> tj = HalogenAcceptor)"

definition OptimalHalogenAngle :: real where
  "OptimalHalogenAngle = degToRad 180"

definition OptimalAcceptorAngle :: real where
  "OptimalAcceptorAngle = degToRad 120"

text \<open>
  Modelled from the spec: the enum \<^verbatim>\<open>InteractionType\<close> of \<^verbatim>\<open>./common\<close> (not among
  the sources); the enumerators are those the link colour theme switches over,
  without \<^verbatim>\<open>Unknown\<close>, which the tester modelled here never returns. A tester returns
  an interaction type or \<^verbatim>\<open>undefined\<close>, here \<open>None\<close>.
\<close>

datatype InteractionType =
    HydrogenBond | WaterHydrogenBond | BackboneHydrogenBond | Hydrophobic | HalogenBond
  | IonicInteraction | MetalCoordination | CationPi | PiStacking | WeakHydrogenBond

text \<open>
  \<^verbatim>\<open>Features.Info\<close>: a view of one feature of a unit. The arrays are those of the
  unit's \<^verbatim>\<open>Features\<close>; \<^verbatim>\<open>feature\<close> is assigned by the pair scan before a tester reads
  it, with a feature index below \<^verbatim>\<open>count\<close>. The tester reads \<^verbatim>\<open>types\<close>,
  \<^verbatim>\<open>offsets\<close> and \<^verbatim>\<open>members\<close> at that feature; for the views the scan builds from
  well-formed features these reads are in range, and reads outside the arrays
  (\<^verbatim>\<open>undefined\<close> in the source) are not modelled.
\<close>

record Info =
  info_unit :: Unit
  info_types :: "FeatureType list"
  info_feature :: nat
  info_members :: "nat list"
  info_offsets :: "nat list"
  info_idealGeometry :: "int list"

record HalogenBondsProps =
  distanceMax :: real
  angleMax :: real

text \<open>
  The default values of \<^verbatim>\<open>HalogenBondsParams\<close>; the declared ranges are 1 to 5 for
  \<^verbatim>\<open>distanceMax\<close> and 0 to 60 for \<^verbatim>\<open>angleMax\<close>.
\<close>

definition HalogenBondsParams_default :: HalogenBondsProps where
  "HalogenBondsParams_default = \<lparr>distanceMax = 4, angleMax = 30\<rparr>"

record Options =
  opt_distanceMax :: real
  opt_angleMax :: real

definition getOptions :: "HalogenBondsProps \<Rightarrow> Options" where
  "getOptions props =
     \<lparr>opt_distanceMax = distanceMax props, opt_angleMax = degToRad (angleMax props)\<rparr>"

text \<open>\<^verbatim>\<open>const [don, acc] = typeA === FeatureType.HalogenDonor ? [infoA, infoB] : [infoB, infoA]\<close>\<close>

definition donorAcceptor :: "Info \<Rightarrow> Info \<Rightarrow> Info \<times> Info" where
  "donorAcceptor infoA infoB =
     (if info_types infoA ! info_feature infoA = HalogenDonor then (infoA, infoB)
      else (infoB, infoA))"

text \<open>\<^verbatim>\<open>info.members[info.offsets[info.feature]]\<close>: the first member atom of the feature.\<close>

definition memberIndex :: "Info \<Rightarrow> nat" where
  "memberIndex info = info_members info ! (info_offsets info ! info_feature info)"

definition testHalogenBond :: "Structure \<Rightarrow> Info \<Rightarrow> Info \<Rightarrow> Options \<Rightarrow> InteractionType option" where
  "testHalogenBond structure infoA infoB opts =
     (let typeA = info_types infoA ! info_feature infoA;
          typeB = info_types infoB ! info_feature infoB
      in if \<not> isHalogenBond typeA typeB then None
      else
        let (don, acc) = donorAcceptor infoA infoB;
            donIndex = memberIndex don;
            accIndex = memberIndex acc
        in if accIndex = donIndex then None
        else
          let altD = altLoc structure (info_unit don) donIndex;
              altA = altLoc structure (info_unit acc) accIndex
          in if altD \<noteq> [] \<and> altA \<noteq> [] \<and> altD \<noteq> altA then None
          else if residueIndex (info_unit don) (elements (info_unit don) ! donIndex)
                  = residueIndex (info_unit acc) (elements (info_unit acc) ! accIndex) then None
          else
            let halogenAngles = calcAngles structure (info_unit don) donIndex (info_unit acc) accIndex
            in if length halogenAngles \<noteq> 1 then None
            else if OptimalHalogenAngle - halogenAngles ! 0 > opt_angleMax opts then None
            else
              let acceptorAngles =
                    calcAngles structure (info_unit acc) accIndex (info_unit don) donIndex
              in if length acceptorAngles = 0 then None
              else if list_ex (\<lambda>acceptorAngle. OptimalAcceptorAngle - acceptorAngle > opt_angleMax opts)
                        acceptorAngles then None
              else Some HalogenBond)"

section \<open>Link testers and the intra-unit pair scan (interactions/links.ts)\<close>

record LinkTester =
  maxDistanceSq :: real
  getType :: "Structure \<Rightarrow> Info \<Rightarrow> Info \<Rightarrow> real \<Rightarrow> InteractionType option"

text \<open>\<^verbatim>\<open>HalogenBondsProvider.createTester\<close>\<close>

definition createTester :: "HalogenBondsProps \<Rightarrow> LinkTester" where
  "createTester props =
     (let opts = getOptions props in
      \<lparr>maxDistanceSq = distanceMax props * distanceMax props,
       getType = (\<lambda>structure infoA infoB distanceSq. testHalogenBond structure infoA infoB opts)\<rparr>)"

text \<open>\<^verbatim>\<open>IntraLinksBuilder\<close>: the three arrays \<^verbatim>\<open>add\<close> appends to.\<close>

record IntraLinksBuilder =
  aIndices :: "nat list"
  bIndices :: "nat list"
  linkTypes :: "InteractionType list"

definition IntraLinksBuilder_create :: IntraLinksBuilder where
  "IntraLinksBuilder_create = \<lparr>aIndices = [], bIndices = [], linkTypes = []\<rparr>"

definition add :: "nat \<Rightarrow> nat \<Rightarrow> InteractionType \<Rightarrow> IntraLinksBuilder \<Rightarrow> IntraLinksBuilder" where
  "add indexA indexB type b =
     b\<lparr>aIndices := aIndices b @ [indexA], bIndices := bIndices b @ [indexB],
       linkTypes := linkTypes b @ [type]\<rparr>"

text \<open>The edges a builder holds, in the order they were added.\<close>

definition links :: "IntraLinksBuilder \<Rightarrow> (nat \<times> nat \<times> InteractionType) list" where
  "links b = zip (aIndices b) (zip (bIndices b) (linkTypes b))"

datatype error = ValenceModelRequired

text \<open>
  \<^verbatim>\<open>Features.Info(structure, unit, features)\<close> throws \<^verbatim>\<open>'valence model required'\<close>
  when the structure has no valence model for the unit. It leaves \<^verbatim>\<open>feature\<close> unset;
  the field holds 0 here until the pair scan assigns it.
\<close>

definition Info :: "Structure \<Rightarrow> Unit \<Rightarrow> Features \<Rightarrow> error + Info" where
  "Info structure unit features =
     (case valenceModel structure of
        None \<Rightarrow> Inl ValenceModelRequired
      | Some vm \<Rightarrow>
         (case vm (unit_id unit) of
            None \<Rightarrow> Inl ValenceModelRequired
          | Some geometry \<Rightarrow>
              Inr \<lparr>info_unit = unit, info_types = f_types features, info_feature = 0,
                   info_members = f_members features, info_offsets = f_offsets features,
                   info_idealGeometry = geometry\<rparr>))"

text \<open>
  Modelled from the spec: \<^verbatim>\<open>GridLookup3D.find(x, y, z, radius)\<close> of
  \<^verbatim>\<open>mol-math/geometry\<close> (not among the sources), over the feature centers: the indices
  of the points within the radius, each once, with their squared distances. The getter
  \<^verbatim>\<open>lookup3d\<close> builds the lookup from the feature arrays on first use and keeps it; the
  arrays never change, so the lookup is a function of them.
\<close>

definition squaredDistance :: "real \<Rightarrow> real \<Rightarrow> real \<Rightarrow> real \<Rightarrow> real \<Rightarrow> real \<Rightarrow> real" where
  "squaredDistance ax ay az bx by bz =
     (ax - bx) * (ax - bx) + (ay - by) * (ay - by) + (az - bz) * (az - bz)"

definition lookup3d_find :: "Features \<Rightarrow> real \<Rightarrow> real \<Rightarrow> real \<Rightarrow> real \<Rightarrow> (nat \<times> real) list" where
  "lookup3d_find features px py pz radius =
     filter (\<lambda>(j, d). d \<le> radius * radius)
       (map (\<lambda>j. (j, squaredDistance px py pz (f_x features ! j) (f_y features ! j) (f_z features ! j)))
          [0..<f_count features])"

text \<open>
  \<^verbatim>\<open>Math.max(...testers.map(t => t.maxDistanceSq))\<close>; with no tester it is
  \<^verbatim>\<open>-Infinity\<close>, here \<open>None\<close>, and the lookup then finds nothing.
\<close>

fun maxOf :: "real list \<Rightarrow> real option" where
  "maxOf [] = None"
| "maxOf (v # vs) = Some (fold max vs v)"

definition findNeighbours :: "Features \<Rightarrow> nat \<Rightarrow> real option \<Rightarrow> (nat \<times> real) list" where
  "findNeighbours features i radius =
     (case radius of
        None \<Rightarrow> []
      | Some r \<Rightarrow> lookup3d_find features (f_x features ! i) (f_y features ! i) (f_z features ! i) r)"

text \<open>
  The pairs that reach the tester loop, in scan order: for every feature \<open>i\<close> below
  \<^verbatim>\<open>count\<close> and every neighbour \<open>j\<close> the lookup returns, unless \<^verbatim>\<open>j <= i\<close>; with the
  squared distance the lookup reports.
\<close>

definition scannedPairs :: "Features \<Rightarrow> real option \<Rightarrow> (nat \<times> nat \<times> real) list" where
  "scannedPairs features radius =
     concat (map (\<lambda>i. map (\<lambda>(j, distanceSq). (i, j, distanceSq))
                        (filter (\<lambda>(j, distanceSq). \<not> j \<le> i) (findNeighbours features i radius)))
               [0..<f_count features])"

text \<open>
  \<^verbatim>\<open>for (const tester of testers)\<close>: a tester is asked when the distance is below its
  cutoff, and the pair is added when it returns a type.
\<close>

definition testPair ::
  "Structure \<Rightarrow> Info \<Rightarrow> Info \<Rightarrow> LinkTester list \<Rightarrow> nat \<times> nat \<times> real \<Rightarrow> IntraLinksBuilder \<Rightarrow> IntraLinksBuilder" where
  "testPair structure infoA infoB testers p builder =
     (case p of (i, j, distanceSq) \<Rightarrow>
        fold (\<lambda>tester b.
           if distanceSq < maxDistanceSq tester
           then (case getType tester structure (infoA\<lparr>info_feature := i\<rparr>)
                        (infoB\<lparr>info_feature := j\<rparr>) distanceSq of
                   Some type \<Rightarrow> add i j type b
                 | None \<Rightarrow> b)
           else b)
          testers builder)"

definition addUnitLinks ::
  "Structure \<Rightarrow> Unit \<Rightarrow> Features \<Rightarrow> IntraLinksBuilder \<Rightarrow> LinkTester list \<Rightarrow> error + IntraLinksBuilder" where
  "addUnitLinks structure unit features builder testers =
     (case Info structure unit features of
        Inl e \<Rightarrow> Inl e
      | Inr infoA \<Rightarrow>
          let infoB = infoA;
              radius = maxOf (map maxDistanceSq testers)
          in Inr (fold (testPair structure infoA infoB testers)
                    (scannedPairs features radius) builder))"

text \<open>
  The edges recorded between two states \<open>b\<close> and \<open>b'\<close> of a builder: what each of
  the three arrays of \<open>b'\<close> holds beyond the length it had in \<open>b\<close>.
\<close>

definition recorded :: "IntraLinksBuilder \<Rightarrow> IntraLinksBuilder \<Rightarrow> (nat \<times> nat \<times> InteractionType) list" where
  "recorded b b' =
     zip (drop (length (aIndices b)) (aIndices b'))
       (zip (drop (length (bIndices b)) (bIndices b'))
            (drop (length (linkTypes b)) (linkTypes b')))"

text \<open>
  The edges the tester loop adds for one scanned pair, in the order of the testers.
\<close>

definition pairLinks ::
  "Structure \<Rightarrow> Info \<Rightarrow> Info \<Rightarrow> LinkTester list \<Rightarrow> nat \<times> nat \<times> real \<Rightarrow> (nat \<times> nat \<times> InteractionType) list" where
  "pairLinks structure infoA infoB testers p =
     (case p of (i, j, distanceSq) \<Rightarrow>
        concat (map (\<lambda>tester.
           if distanceSq < maxDistanceSq tester
           then (case getType tester structure (infoA\<lparr>info_feature := i\<rparr>)
                        (infoB\<lparr>info_feature := j\<rparr>) distanceSq of
                   Some type \<Rightarrow> [(i, j, type)]
                 | None \<Rightarrow> [])
           else [])
          testers))"

section \<open>Auxiliary notions\<close>

text \<open>
  The blocks of \<^verbatim>\<open>members\<close> a call sequence lays out: for every \<^verbatim>\<open>addOne\<close>, its
  atom followed by the members pushed before the next \<^verbatim>\<open>addOne\<close>.
\<close>

fun blocks :: "BuilderCall list \<Rightarrow> nat list list" where
  "blocks [] = []"
| "blocks (AddOne t g x y z m # cs) = (m # pushes_before_first cs) # blocks cs"
| "blocks (c # cs) = blocks cs"

text \<open>The start of every block of a list of blocks laid out from \<open>n\<close> on, and the end.\<close>

fun block_offsets :: "nat \<Rightarrow> 'a list list \<Rightarrow> nat list" where
  "block_offsets n [] = [n]"
| "block_offsets n (b # bs) = n # block_offsets (n + length b) bs"

text \<open>
  The pattern of C10, in the claim's words: the atom's element is N, O or S, and at least
  one atom bonded to it has element C, N, P or S.
\<close>

definition acceptorPattern :: "Structure \<Rightarrow> Unit \<Rightarrow> nat \<Rightarrow> bool" where
  "acceptorPattern structure unit i \<longleftrightarrow>
     typeSymbol structure unit i \<in> {Elements_N, Elements_O, Elements_S}
     \<and> (\<exists>(unitB, indexB) \<in> set (eachBondedAtom structure unit i).
           typeSymbol structure unitB indexB \<in> {Elements_C, Elements_N, Elements_P, Elements_S})"

text \<open>
  A small structure for evaluating the definitions: one unit of four atoms on the x axis,
  3 apart, each in its own residue: chlorine (0), oxygen (1), carbon (2), nitrogen (3);
  chlorine and oxygen are bonded to the carbon, the nitrogen to nothing. The measured
  angles are 180 degrees at the chlorine and 120 degrees at any other atom.
\<close>

definition example_unit :: Unit where
  "example_unit =
     \<lparr>unit_id = 0, elements = [0, 1, 2, 3], residueIndex = (\<lambda>e. e),
      conformation_x = (\<lambda>e. 3 * real e), conformation_y = (\<lambda>e. 0), conformation_z = (\<lambda>e. 0)\<rparr>"

definition example_structure :: Structure where
  "example_structure =
     \<lparr>typeSymbol = (\<lambda>u i. if i = 0 then Elements_CL else if i = 1 then Elements_O
                           else if i = 2 then Elements_C else Elements_N),
      altLoc = (\<lambda>u i. []),
      eachBondedAtom = (\<lambda>u i. if i = 0 \<or> i = 1 then [(example_unit, 2)] else []),
      calcAngles = (\<lambda>uA iA uB iB. if iA = 0 then [degToRad 180] else [degToRad 120]),
      valenceModel = Some (\<lambda>k. Some [])\<rparr>"

definition example_features :: Features where
  "example_features =
     getFeatures 4 (addUnitHalogenAcceptors example_structure example_unit
       (addUnitHalogenDonors example_structure example_unit (create 2048 1024)))"

definition example_info :: "nat \<Rightarrow> Info" where
  "example_info i =
     \<lparr>info_unit = example_unit, info_types = f_types example_features, info_feature = i,
      info_members = f_members example_features, info_offsets = f_offsets example_features,
      info_idealGeometry = []\<rparr>"


section \<open>Properties of the builder\<close>

lemmas builder_defs =
  create_def clearState_def pushMember_def addState_def addOne_def getFeatures_def
  getFeatures_builder_def Let_def
  ChunkedArray_add_def ChunkedArray_compact_def elementCount_def

lemma call_state_count:
  "state_count (state b) = 0 \<Longrightarrow> state_count (state (call c b)) = 0"
  by (cases c) (simp_all add: builder_defs)

lemma calls_state_count:
  "state_count (state b) = 0 \<Longrightarrow> state_count (state (calls cs b)) = 0"
  by (induction cs arbitrary: b) (simp_all add: call_state_count)

lemma addState_noop:
  "state_count (state b) = 0 \<Longrightarrow> addState t g b = b"
  by (simp add: addState_def)

lemma getFeatures_second_call:
  "f_offsets (getFeatures n (getFeatures_builder b))
     = f_offsets (getFeatures n b) @ [length (members b)]"
  by (simp add: builder_defs)

text \<open>
  C1. After \<^verbatim>\<open>clearState()\<close> and one \<^verbatim>\<open>pushMember(1, 2, 3, 7)\<close> on a fresh builder,
  \<^verbatim>\<open>addState(HalogenDonor, None)\<close> should append one feature centred at the mean
  \<open>(1, 2, 3)\<close>. The code appends nothing: \<^verbatim>\<open>state.count\<close> is still 0, so
  \<^verbatim>\<open>addState\<close> returns early; the builder is left as it was before the call (the pushed
  member stays in \<^verbatim>\<open>members\<close>, the sums are not reset) and \<^verbatim>\<open>getFeatures\<close> reports
  no feature.
\<close>

theorem addState_after_pushMember_appends_nothing:
  "addState HalogenDonor FeatureGroup_None
     (pushMember 1 2 3 7 (clearState (create 2048 1024)))
   = pushMember 1 2 3 7 (clearState (create 2048 1024))
   \<and> getFeatures 8 (addState HalogenDonor FeatureGroup_None
        (pushMember 1 2 3 7 (clearState (create 2048 1024))))
     = \<lparr>f_count = 0, f_x = [], f_y = [], f_z = [], f_types = [], f_groups = [],
        f_offsets = [1], f_members = [7]\<rparr>"
  by (simp add: builder_defs)

text \<open>
  C2. \<^verbatim>\<open>addOne(HalogenDonor, None, 1, 2, 3, 7)\<close> on a fresh builder yields one feature;
  \<^verbatim>\<open>clearState(); pushMember(1, 2, 3, 7); addState(HalogenDonor, None)\<close> yields none,
  so the two builders and the two \<^verbatim>\<open>Features\<close> values differ.
\<close>

theorem addOne_differs_from_push_addState:
  "getFeatures 8 (addOne HalogenDonor FeatureGroup_None 1 2 3 7 (create 2048 1024))
     = \<lparr>f_count = 1, f_x = [1], f_y = [2], f_z = [3], f_types = [HalogenDonor],
        f_groups = [FeatureGroup_None], f_offsets = [0, 1], f_members = [7]\<rparr>
   \<and> getFeatures 8 (calls [ClearState, PushMember 1 2 3 7, AddState HalogenDonor FeatureGroup_None]
        (create 2048 1024))
     = \<lparr>f_count = 0, f_x = [], f_y = [], f_z = [], f_types = [], f_groups = [],
        f_offsets = [1], f_members = [7]\<rparr>
   \<and> addOne HalogenDonor FeatureGroup_None 1 2 3 7 (create 2048 1024)
     \<noteq> calls [ClearState, PushMember 1 2 3 7, AddState HalogenDonor FeatureGroup_None]
         (create 2048 1024)"
  by (simp add: builder_defs)


section \<open>Offsets and member ranges of the built features\<close>

text \<open>
  C3, as stated, fails: after \<^verbatim>\<open>addOne(.., 7)\<close>, \<^verbatim>\<open>pushMember(.., 9)\<close> and
  \<^verbatim>\<open>clearState()\<close> the one feature recorded has the single member 7, but its range in
  \<^verbatim>\<open>members\<close> is \<open>[7, 9]\<close>: \<^verbatim>\<open>clearState\<close> moves the start offset and leaves the
  pushed member in the array.
\<close>

theorem discarded_member_stays_in_range:
  "f_count (getFeatures 10 (calls
      [AddOne HalogenDonor FeatureGroup_None 1 2 3 7, PushMember 4 5 6 9, ClearState]
      (create 2048 1024))) = 1
   \<and> feature_members (getFeatures 10 (calls
      [AddOne HalogenDonor FeatureGroup_None 1 2 3 7, PushMember 4 5 6 9, ClearState]
      (create 2048 1024))) 0 = [7, 9]
   \<and> spec_recorded_members
      [AddOne HalogenDonor FeatureGroup_None 1 2 3 7, PushMember 4 5 6 9, ClearState] [] = [[7]]
   \<and> feature_members (getFeatures 10 (calls
      [AddOne HalogenDonor FeatureGroup_None 1 2 3 7, PushMember 4 5 6 9, ClearState]
      (create 2048 1024))) 0
     \<noteq> spec_recorded_members
      [AddOne HalogenDonor FeatureGroup_None 1 2 3 7, PushMember 4 5 6 9, ClearState] [] ! 0"
  by (simp add: builder_defs feature_members_def)

lemma block_offsets_length: "length (block_offsets n bs) = length bs + 1"
  by (induction bs arbitrary: n) simp_all

lemma block_offsets_first: "block_offsets n bs ! 0 = n"
  by (cases bs) simp_all

lemma block_offsets_ge: "k \<in> set (block_offsets n bs) \<Longrightarrow> n \<le> k"
  by (induction bs arbitrary: n) fastforce+

lemma block_offsets_sorted: "sorted (block_offsets n bs)"
  by (induction bs arbitrary: n) (auto dest: block_offsets_ge)

lemma block_offsets_last: "block_offsets n bs ! length bs = n + length (concat bs)"
  by (induction bs arbitrary: n) simp_all

lemma block_range:
  "i < length bs \<Longrightarrow> length pre = n \<Longrightarrow>
     take (block_offsets n bs ! (i + 1) - block_offsets n bs ! i)
       (drop (block_offsets n bs ! i) (pre @ concat bs)) = bs ! i"
proof (induction bs arbitrary: n pre i)
  case Nil
  then show ?case by simp
next
  case (Cons b bs)
  show ?case
  proof (cases i)
    case 0
    then show ?thesis using Cons.prems by (simp add: block_offsets_first)
  next
    case (Suc j)
    then have j: "j < length bs" using Cons.prems by simp
    have "take (block_offsets (n + length b) bs ! (j + 1) - block_offsets (n + length b) bs ! j)
       (drop (block_offsets (n + length b) bs ! j) ((pre @ b) @ concat bs)) = bs ! j"
      by (rule Cons.IH [OF j]) (simp add: Cons.prems)
    then show ?thesis using Suc by simp
  qed
qed

lemma calls_arrays:
  "state_count (state b) = 0 \<Longrightarrow>
     members (calls cs b) = members b @ pushes_before_first cs @ concat (blocks cs)
   \<and> offsets (calls cs b)
         @ [length (members b) + length (pushes_before_first cs) + length (concat (blocks cs))]
       = offsets b @ block_offsets (length (members b) + length (pushes_before_first cs)) (blocks cs)
   \<and> length (xCenters (calls cs b)) = length (xCenters b) + length (blocks cs)"
proof (induction cs arbitrary: b)
  case Nil
  then show ?case by simp
next
  case (Cons c cs)
  have 0: "state_count (state (call c b)) = 0"
    using Cons.prems by (rule call_state_count)
  note IH = Cons.IH [OF 0]
  show ?case
  proof (cases c)
    case ClearState
    then show ?thesis using IH by (simp add: builder_defs add.assoc)
  next
    case (PushMember x y z m)
    then show ?thesis using IH by (simp add: builder_defs add.assoc)
  next
    case (AddState t g)
    then show ?thesis using IH Cons.prems by (simp add: addState_noop)
  next
    case (AddOne t g x y z m)
    then show ?thesis using IH by (simp add: builder_defs add.assoc)
  qed
qed

lemma spec_recorded_blocks:
  "no_addState_on_pushed cs pushed \<Longrightarrow> (\<not> pushed \<Longrightarrow> pending = []) \<Longrightarrow>
     length (spec_recorded_members cs pending) = length (blocks cs)
   \<and> map2 (@) (spec_recorded_members cs pending) (pushes_after cs) = blocks cs"
proof (induction cs pushed arbitrary: pending rule: no_addState_on_pushed.induct)
  case (1 pushed)
  then show ?case by simp
next
  case (2 cs pushed)
  then show ?case by simp
next
  case (3 x y z m cs pushed)
  then show ?case by simp
next
  case (4 t g cs pushed)
  then show ?case by simp
next
  case (5 t g x y z m cs pushed)
  then show ?case by simp
qed

lemma pushes_after_length: "length (pushes_after cs) = length (blocks cs)"
  by (induction cs rule: blocks.induct) simp_all


lemma getFeatures_blocks:
  "f_members (getFeatures n (calls cs (create ic ch))) = pushes_before_first cs @ concat (blocks cs)
   \<and> f_offsets (getFeatures n (calls cs (create ic ch)))
       = block_offsets (length (pushes_before_first cs)) (blocks cs)
   \<and> f_count (getFeatures n (calls cs (create ic ch))) = length (blocks cs)"
  using calls_arrays [of "create ic ch" cs]
  by (simp add: builder_defs)

text \<open>
  C3, amended. For the features returned by \<^verbatim>\<open>getFeatures\<close> after a sequence of
  \<^verbatim>\<open>addOne\<close>, \<^verbatim>\<open>pushMember\<close>, \<^verbatim>\<open>addState\<close> and \<^verbatim>\<open>clearState\<close> calls on a fresh
  builder in which \<^verbatim>\<open>addState\<close> is never called on pushed members: \<^verbatim>\<open>offsets\<close> has
  \<^verbatim>\<open>count + 1\<close> entries, is non-decreasing, and \<^verbatim>\<open>offsets[count]\<close> is the length of
  \<^verbatim>\<open>members\<close>; there is one feature per recorded feature, and the range of feature \<open>i\<close>
  holds the members recorded for it followed by the members pushed after it was added and
  before the next feature was added, which \<^verbatim>\<open>clearState\<close> does not remove. The members
  pushed before the first feature lie before \<^verbatim>\<open>offsets[0]\<close>, in no range. Where no such push
  follows feature \<open>i\<close>, its range is exactly the members recorded for it.
\<close>

theorem getFeatures_offsets_partition:
  assumes "no_addState_on_pushed cs False"
  shows "length (f_offsets (getFeatures n (calls cs (create ic ch))))
           = f_count (getFeatures n (calls cs (create ic ch))) + 1
       \<and> sorted (f_offsets (getFeatures n (calls cs (create ic ch))))
       \<and> f_offsets (getFeatures n (calls cs (create ic ch)))
             ! f_count (getFeatures n (calls cs (create ic ch)))
           = length (f_members (getFeatures n (calls cs (create ic ch))))
       \<and> length (spec_recorded_members cs []) = f_count (getFeatures n (calls cs (create ic ch)))
       \<and> map (feature_members (getFeatures n (calls cs (create ic ch))))
             [0..<f_count (getFeatures n (calls cs (create ic ch)))]
           = map2 (@) (spec_recorded_members cs []) (pushes_after cs)
       \<and> take (f_offsets (getFeatures n (calls cs (create ic ch))) ! 0)
             (f_members (getFeatures n (calls cs (create ic ch))))
           = pushes_before_first cs
       \<and> (\<forall>i < f_count (getFeatures n (calls cs (create ic ch))).
             pushes_after cs ! i = [] \<longrightarrow>
             feature_members (getFeatures n (calls cs (create ic ch))) i
               = spec_recorded_members cs [] ! i)"
proof -
  let ?F = "getFeatures n (calls cs (create ic ch))"
  let ?p = "pushes_before_first cs"
  have m: "f_members ?F = ?p @ concat (blocks cs)"
    and off: "f_offsets ?F = block_offsets (length ?p) (blocks cs)"
    and cnt: "f_count ?F = length (blocks cs)"
    using getFeatures_blocks [of n cs ic ch] by simp_all
  have spec: "length (spec_recorded_members cs []) = length (blocks cs)"
    and spec2: "map2 (@) (spec_recorded_members cs []) (pushes_after cs) = blocks cs"
    using spec_recorded_blocks [OF assms, of "[]"] by simp_all
  have 1: "length (f_offsets ?F) = f_count ?F + 1"
    by (simp add: off cnt block_offsets_length)
  have 2: "sorted (f_offsets ?F)"
    by (simp add: off block_offsets_sorted)
  have 3: "f_offsets ?F ! f_count ?F = length (f_members ?F)"
    by (simp add: off cnt m block_offsets_last)
  have 4: "length (spec_recorded_members cs []) = f_count ?F"
    by (simp add: spec cnt)
  have range: "feature_members ?F i = blocks cs ! i" if "i < length (blocks cs)" for i
    unfolding feature_members_def off m
    by (rule block_range [OF that refl])
  have 5: "map (feature_members ?F) [0..<f_count ?F]
             = map2 (@) (spec_recorded_members cs []) (pushes_after cs)"
    unfolding spec2 cnt
    by (rule nth_equalityI) (simp_all add: range)
  have 6: "take (f_offsets ?F ! 0) (f_members ?F) = ?p"
    by (simp add: off m block_offsets_first)
  have 7: "feature_members ?F i = spec_recorded_members cs [] ! i"
    if i: "i < f_count ?F" and e: "pushes_after cs ! i = []" for i
  proof -
    have "feature_members ?F i = map2 (@) (spec_recorded_members cs []) (pushes_after cs) ! i"
      using i range by (simp add: spec2 cnt)
    also have "\<dots> = spec_recorded_members cs [] ! i @ pushes_after cs ! i"
      using i by (simp add: cnt spec pushes_after_length)
    finally show ?thesis by (simp add: e)
  qed
  from 1 2 3 4 5 6 7 show ?thesis by blast
qed

theorem getFeatures_offsets_partition_witness:
  "no_addState_on_pushed
      [PushMember 0 0 0 5, ClearState, AddOne HalogenDonor FeatureGroup_None 1 2 3 7,
       PushMember 4 5 6 9, ClearState, AddOne HalogenAcceptor FeatureGroup_None 4 5 6 8] False
   \<and> f_offsets (getFeatures 10 (calls
      [PushMember 0 0 0 5, ClearState, AddOne HalogenDonor FeatureGroup_None 1 2 3 7,
       PushMember 4 5 6 9, ClearState, AddOne HalogenAcceptor FeatureGroup_None 4 5 6 8]
      (create 2048 1024))) = [1, 3, 4]
   \<and> f_members (getFeatures 10 (calls
      [PushMember 0 0 0 5, ClearState, AddOne HalogenDonor FeatureGroup_None 1 2 3 7,
       PushMember 4 5 6 9, ClearState, AddOne HalogenAcceptor FeatureGroup_None 4 5 6 8]
      (create 2048 1024))) = [5, 7, 9, 8]
   \<and> spec_recorded_members
      [PushMember 0 0 0 5, ClearState, AddOne HalogenDonor FeatureGroup_None 1 2 3 7,
       PushMember 4 5 6 9, ClearState, AddOne HalogenAcceptor FeatureGroup_None 4 5 6 8] []
      = [[7], [8]]
   \<and> pushes_after
      [PushMember 0 0 0 5, ClearState, AddOne HalogenDonor FeatureGroup_None 1 2 3 7,
       PushMember 4 5 6 9, ClearState, AddOne HalogenAcceptor FeatureGroup_None 4 5 6 8]
      = [[9], []]
   \<and> map (feature_members (getFeatures 10 (calls
      [PushMember 0 0 0 5, ClearState, AddOne HalogenDonor FeatureGroup_None 1 2 3 7,
       PushMember 4 5 6 9, ClearState, AddOne HalogenAcceptor FeatureGroup_None 4 5 6 8]
      (create 2048 1024))))
      [0..<f_count (getFeatures 10 (calls
      [PushMember 0 0 0 5, ClearState, AddOne HalogenDonor FeatureGroup_None 1 2 3 7,
       PushMember 4 5 6 9, ClearState, AddOne HalogenAcceptor FeatureGroup_None 4 5 6 8]
      (create 2048 1024)))]
      = [[7, 9], [8]]
   \<and> pushes_before_first
      [PushMember 0 0 0 5, ClearState, AddOne HalogenDonor FeatureGroup_None 1 2 3 7,
       PushMember 4 5 6 9, ClearState, AddOne HalogenAcceptor FeatureGroup_None 4 5 6 8]
      = [5]"
proof -
  have g: "no_addState_on_pushed
      [PushMember 0 0 0 5, ClearState, AddOne HalogenDonor FeatureGroup_None 1 2 3 7,
       PushMember 4 5 6 9, ClearState, AddOne HalogenAcceptor FeatureGroup_None 4 5 6 8] False"
    by simp
  show ?thesis
    using getFeatures_offsets_partition [OF g, of 10 2048 1024] g
    by (simp add: builder_defs)
qed

section \<open>The reverse index on a feature with two members\<close>

text \<open>
  C4. For one feature with the two members 0 and 1 (\<^verbatim>\<open>count = 1\<close>,
  \<^verbatim>\<open>offsets = [0, 2]\<close>, \<^verbatim>\<open>members = [0, 1]\<close>) and \<^verbatim>\<open>elementsCount = 2\<close>, the index
  should list feature 0 for atom 0 and for atom 1. The bucket sizes are counted over
  \<^verbatim>\<open>members[0 .. count - 1]\<close> only, so atom 1 gets an empty bucket: the result is
  \<^verbatim>\<open>indices = [0]\<close>, \<^verbatim>\<open>offsets = [0, 1, 1]\<close>, and the range of atom 1 is empty although
  atom 1 is a member of feature 0.
\<close>

theorem createElementsIndex_misses_member:
  "createElementsIndex
     \<lparr>f_count = 1, f_x = [0], f_y = [0], f_z = [0], f_types = [AromaticRing],
      f_groups = [FeatureGroup_None], f_offsets = [0, 2], f_members = [0, 1]\<rparr> 2
     = \<lparr>ei_indices = [0], ei_offsets = [0, 1, 1]\<rparr>
   \<and> 1 \<in> set (feature_members
     \<lparr>f_count = 1, f_x = [0], f_y = [0], f_z = [0], f_types = [AromaticRing],
      f_groups = [FeatureGroup_None], f_offsets = [0, 2], f_members = [0, 1]\<rparr> 0)
   \<and> element_features (createElementsIndex
     \<lparr>f_count = 1, f_x = [0], f_y = [0], f_z = [0], f_types = [AromaticRing],
      f_groups = [FeatureGroup_None], f_offsets = [0, 2], f_members = [0, 1]\<rparr> 2) 1 = []"
  by (simp add: createElementsIndex_def countBuckets_def fillOffsets_def placeMember_def
      featureRange_def aget_def increment_def upt_rec numeral_2_eq_2 feature_members_def
      element_features_def)

section \<open>The halogen acceptor provider\<close>

lemma fold_flag:
  "fold (\<lambda>p flag. if Q p then True else flag) xs acc \<longleftrightarrow> acc \<or> (\<exists>p\<in>set xs. Q p)"
  by (induction xs arbitrary: acc) auto

lemma bondedFlag_iff:
  "bondedFlag st u i \<longleftrightarrow> (\<exists>(unitB, indexB) \<in> set (eachBondedAtom st u i). typeSymbol st unitB indexB \<in> set Y)"
  unfolding bondedFlag_def
  using fold_flag [of "\<lambda>(unitB, indexB). typeSymbol st unitB indexB \<in> set Y" "eachBondedAtom st u i" False]
  by (simp add: case_prod_unfold)

lemma fold_if_filter:
  "fold (\<lambda>i b. if P i then f i b else b) xs b = fold f (filter P xs) b"
  by (induction xs arbitrary: b) auto

lemma addUnitHalogenAcceptors_fold:
  "addUnitHalogenAcceptors st u b =
     fold (\<lambda>i. addOne HalogenAcceptor FeatureGroup_None
                 (conformation_x u (elements u ! i)) (conformation_y u (elements u ! i))
                 (conformation_z u (elements u ! i)) i)
       (filter (acceptorPattern st u) [0..<length (elements u)]) b"
proof -
  have "(\<lambda>i b. let element = typeSymbol st u i in
        if element \<in> set X
        then (if bondedFlag st u i
              then addOne HalogenAcceptor FeatureGroup_None
                     (conformation_x u (elements u ! i))
                     (conformation_y u (elements u ! i))
                     (conformation_z u (elements u ! i)) i b
              else b)
        else b) = (\<lambda>i b. if acceptorPattern st u i then addOne HalogenAcceptor FeatureGroup_None
                     (conformation_x u (elements u ! i))
                     (conformation_y u (elements u ! i))
                     (conformation_z u (elements u ! i)) i b else b)"
    by (intro ext) (auto simp: acceptorPattern_def bondedFlag_iff X_def Y_def)
  then show ?thesis
    unfolding addUnitHalogenAcceptors_def by (simp add: fold_if_filter)
qed

lemma fold_addOne:
  "members (fold (\<lambda>i. addOne t g (fx i) (fy i) (fz i) i) atoms b) = members b @ atoms
   \<and> offsets (fold (\<lambda>i. addOne t g (fx i) (fy i) (fz i) i) atoms b)
       = offsets b @ [length (members b)..<length (members b) + length atoms]
   \<and> types (fold (\<lambda>i. addOne t g (fx i) (fy i) (fz i) i) atoms b) = types b @ map (\<lambda>i. t) atoms
   \<and> groups (fold (\<lambda>i. addOne t g (fx i) (fy i) (fz i) i) atoms b) = groups b @ map (\<lambda>i. g) atoms
   \<and> xCenters (fold (\<lambda>i. addOne t g (fx i) (fy i) (fz i) i) atoms b) = xCenters b @ map fx atoms
   \<and> yCenters (fold (\<lambda>i. addOne t g (fx i) (fy i) (fz i) i) atoms b) = yCenters b @ map fy atoms
   \<and> zCenters (fold (\<lambda>i. addOne t g (fx i) (fy i) (fz i) i) atoms b) = zCenters b @ map fz atoms
   \<and> state (fold (\<lambda>i. addOne t g (fx i) (fy i) (fz i) i) atoms b) = state b"
proof (induction atoms arbitrary: b)
  case Nil
  then show ?case by simp
next
  case (Cons a atoms)
  have step: "members (addOne t g (fx a) (fy a) (fz a) a b) = members b @ [a]"
    "offsets (addOne t g (fx a) (fy a) (fz a) a b) = offsets b @ [length (members b)]"
    "types (addOne t g (fx a) (fy a) (fz a) a b) = types b @ [t]"
    "groups (addOne t g (fx a) (fy a) (fz a) a b) = groups b @ [g]"
    "xCenters (addOne t g (fx a) (fy a) (fz a) a b) = xCenters b @ [fx a]"
    "yCenters (addOne t g (fx a) (fy a) (fz a) a b) = yCenters b @ [fy a]"
    "zCenters (addOne t g (fx a) (fy a) (fz a) a b) = zCenters b @ [fz a]"
    "state (addOne t g (fx a) (fy a) (fz a) a b) = state b"
    by (simp_all add: builder_defs)
  show ?case
    using Cons.IH [of "addOne t g (fx a) (fy a) (fz a) a b"] step
    by (simp del: upt_Suc add: upt_conv_Cons)
qed


lemmas element_defs =
  Elements_C_def Elements_N_def Elements_O_def Elements_P_def Elements_S_def
  Elements_CL_def Elements_BR_def Elements_I_def Elements_AT_def

lemma example_features_eq:
  "example_features =
     \<lparr>f_count = 2, f_x = [0, 3], f_y = [0, 0], f_z = [0, 0],
      f_types = [HalogenDonor, HalogenAcceptor], f_groups = [FeatureGroup_None, FeatureGroup_None],
      f_offsets = [0, 1, 2], f_members = [0, 1]\<rparr>"
  by (simp add: example_features_def addUnitHalogenAcceptors_def addUnitHalogenDonors_def
      example_structure_def example_unit_def bondedFlag_def halBondElements_def X_def Y_def
      element_defs builder_defs)

text \<open>
  C10. \<^verbatim>\<open>addUnitHalogenAcceptors\<close> appends one feature for every unit index \<open>i\<close> that
  matches the pattern (element N, O or S with a bonded C, N, P or S), in ascending order of
  \<open>i\<close>, and nothing else: each such feature has type \<^verbatim>\<open>HalogenAcceptor\<close>, group
  \<^verbatim>\<open>None\<close>, the atom's own position as center, and a range of its own in \<^verbatim>\<open>members\<close>
  holding \<open>i\<close> alone. The accumulation state is not touched.
\<close>

theorem addUnitHalogenAcceptors_features:
  "members (addUnitHalogenAcceptors structure unit b)
     = members b @ filter (acceptorPattern structure unit) [0..<length (elements unit)]
   \<and> offsets (addUnitHalogenAcceptors structure unit b)
     = offsets b @ [length (members b)..<length (members b)
         + length (filter (acceptorPattern structure unit) [0..<length (elements unit)])]
   \<and> types (addUnitHalogenAcceptors structure unit b)
     = types b @ map (\<lambda>i. HalogenAcceptor)
         (filter (acceptorPattern structure unit) [0..<length (elements unit)])
   \<and> groups (addUnitHalogenAcceptors structure unit b)
     = groups b @ map (\<lambda>i. FeatureGroup_None)
         (filter (acceptorPattern structure unit) [0..<length (elements unit)])
   \<and> xCenters (addUnitHalogenAcceptors structure unit b)
     = xCenters b @ map (\<lambda>i. conformation_x unit (elements unit ! i))
         (filter (acceptorPattern structure unit) [0..<length (elements unit)])
   \<and> yCenters (addUnitHalogenAcceptors structure unit b)
     = yCenters b @ map (\<lambda>i. conformation_y unit (elements unit ! i))
         (filter (acceptorPattern structure unit) [0..<length (elements unit)])
   \<and> zCenters (addUnitHalogenAcceptors structure unit b)
     = zCenters b @ map (\<lambda>i. conformation_z unit (elements unit ! i))
         (filter (acceptorPattern structure unit) [0..<length (elements unit)])
   \<and> state (addUnitHalogenAcceptors structure unit b) = state b"
  unfolding addUnitHalogenAcceptors_fold
  by (rule fold_addOne)

theorem addUnitHalogenAcceptors_features_witness:
  "filter (acceptorPattern example_structure example_unit) [0..<length (elements example_unit)] = [1]
   \<and> \<not> acceptorPattern example_structure example_unit 3
   \<and> typeSymbol example_structure example_unit 3 = Elements_N
   \<and> members (addUnitHalogenAcceptors example_structure example_unit (create 2048 1024)) = [1]
   \<and> offsets (addUnitHalogenAcceptors example_structure example_unit (create 2048 1024)) = [0]
   \<and> types (addUnitHalogenAcceptors example_structure example_unit (create 2048 1024)) = [HalogenAcceptor]
   \<and> xCenters (addUnitHalogenAcceptors example_structure example_unit (create 2048 1024)) = [3]"
  using addUnitHalogenAcceptors_features [of example_structure example_unit "create 2048 1024"]
  by (simp add: acceptorPattern_def example_structure_def example_unit_def element_defs create_def)


section \<open>The halogen bond tester\<close>

lemmas tester_defs =
  createTester_def getOptions_def testHalogenBond_def isHalogenBond_def Let_def

lemmas example_defs =
  example_info_def example_features_eq example_structure_def example_unit_def
  donorAcceptor_def memberIndex_def HalogenBondsParams_default_def
  OptimalHalogenAngle_def OptimalAcceptorAngle_def degToRad_def

text \<open>
  C5, as stated, fails: with the default parameters (angle tolerance 30 degrees), a donor
  angle of 180 degrees and an acceptor angle of 170 degrees, the tester returns
  \<^verbatim>\<open>HalogenBond\<close> although \<open>\<bar>120 - 170\<bar> = 50 > 30\<close>: the test
  \<^verbatim>\<open>OptimalAcceptorAngle - acceptorAngle > opts.angleMax\<close> has no absolute value, so an
  acceptor angle above 120 degrees never rejects.
\<close>

theorem acceptor_angle_above_optimum_accepted:
  "getType (createTester HalogenBondsParams_default)
     (example_structure\<lparr>calcAngles :=
        (\<lambda>uA iA uB iB. if iA = 0 then [degToRad 180] else [degToRad 170])\<rparr>)
     (example_info 0) (example_info 1) 9 = Some HalogenBond
   \<and> calcAngles (example_structure\<lparr>calcAngles :=
        (\<lambda>uA iA uB iB. if iA = 0 then [degToRad 180] else [degToRad 170])\<rparr>)
       example_unit 1 example_unit 0 = [degToRad 170]
   \<and> \<not> \<bar>degToRad 120 - degToRad 170\<bar> \<le> degToRad (angleMax HalogenBondsParams_default)"
  by (simp add: tester_defs example_defs)

text \<open>
  C5, amended. The tester returns \<^verbatim>\<open>HalogenBond\<close> only if exactly one donor angle is
  defined and it satisfies \<open>180 - angle \<le> angleMax\<close> (which is
  \<open>\<bar>180 - angle\<bar> \<le> angleMax\<close> whenever the angle is at most 180 degrees),
  at least one acceptor angle is defined, and every acceptor angle satisfies the one-sided
  \<open>120 - angle \<le> angleMax\<close>; all in radians. Otherwise it returns no
  interaction.
\<close>

theorem getType_HalogenBond_angles:
  assumes "donorAcceptor infoA infoB = (don, acc)"
  shows "(getType (createTester props) structure infoA infoB distanceSq = Some HalogenBond \<longrightarrow>
           length (calcAngles structure (info_unit don) (memberIndex don) (info_unit acc) (memberIndex acc)) = 1
         \<and> OptimalHalogenAngle
             - calcAngles structure (info_unit don) (memberIndex don) (info_unit acc) (memberIndex acc) ! 0
             \<le> degToRad (angleMax props)
         \<and> (calcAngles structure (info_unit don) (memberIndex don) (info_unit acc) (memberIndex acc) ! 0
               \<le> OptimalHalogenAngle \<longrightarrow>
             \<bar>OptimalHalogenAngle
               - calcAngles structure (info_unit don) (memberIndex don) (info_unit acc) (memberIndex acc) ! 0\<bar>
               \<le> degToRad (angleMax props))
         \<and> calcAngles structure (info_unit acc) (memberIndex acc) (info_unit don) (memberIndex don) \<noteq> []
         \<and> (\<forall>acceptorAngle \<in> set (calcAngles structure (info_unit acc) (memberIndex acc)
                                        (info_unit don) (memberIndex don)).
               OptimalAcceptorAngle - acceptorAngle \<le> degToRad (angleMax props)))
       \<and> (getType (createTester props) structure infoA infoB distanceSq \<noteq> Some HalogenBond \<longrightarrow>
           getType (createTester props) structure infoA infoB distanceSq = None)"
  using assms
  by (auto simp: tester_defs list_ex_iff not_less split: if_splits)


theorem getType_HalogenBond_angles_witness:
  "donorAcceptor (example_info 0) (example_info 1) = (example_info 0, example_info 1)
   \<and> getType (createTester HalogenBondsParams_default) example_structure
        (example_info 0) (example_info 1) 9 = Some HalogenBond
   \<and> calcAngles example_structure example_unit 0 example_unit 1 = [degToRad 180]
   \<and> calcAngles example_structure example_unit 1 example_unit 0 = [degToRad 120]
   \<and> OptimalHalogenAngle - degToRad 180 \<le> degToRad (angleMax HalogenBondsParams_default)
   \<and> OptimalAcceptorAngle - degToRad 120 \<le> degToRad (angleMax HalogenBondsParams_default)"
  using getType_HalogenBond_angles [of "example_info 0" "example_info 1" "example_info 0"
      "example_info 1" HalogenBondsParams_default example_structure 9]
  by (simp add: tester_defs example_defs)

text \<open>
  C8. With \<open>don\<close> and \<open>acc\<close> the donor and acceptor views of the pair: when both atoms
  have a non-empty altloc and the two differ, the tester returns no interaction; in every
  other case (at most one altloc defined, or both equal) the altlocs play no role: the
  result is the one the remaining checks give, that is, the result on the same structure
  with every altloc erased.
\<close>

theorem altLoc_rejection:
  assumes "donorAcceptor infoA infoB = (don, acc)"
  shows "(altLoc structure (info_unit don) (memberIndex don) \<noteq> []
          \<and> altLoc structure (info_unit acc) (memberIndex acc) \<noteq> []
          \<and> altLoc structure (info_unit don) (memberIndex don)
              \<noteq> altLoc structure (info_unit acc) (memberIndex acc)
          \<longrightarrow> getType (createTester props) structure infoA infoB distanceSq = None)
       \<and> (\<not> (altLoc structure (info_unit don) (memberIndex don) \<noteq> []
              \<and> altLoc structure (info_unit acc) (memberIndex acc) \<noteq> []
              \<and> altLoc structure (info_unit don) (memberIndex don)
                  \<noteq> altLoc structure (info_unit acc) (memberIndex acc))
          \<longrightarrow> getType (createTester props) structure infoA infoB distanceSq
              = getType (createTester props) (structure\<lparr>altLoc := (\<lambda>unit index. [])\<rparr>)
                  infoA infoB distanceSq)"
  using assms
  by (auto simp: tester_defs)

theorem altLoc_rejection_witness:
  "donorAcceptor (example_info 0) (example_info 1) = (example_info 0, example_info 1)
   \<and> getType (createTester HalogenBondsParams_default)
        (example_structure\<lparr>altLoc := (\<lambda>unit index. if index = 0 then ''A'' else ''B'')\<rparr>)
        (example_info 0) (example_info 1) 9 = None
   \<and> getType (createTester HalogenBondsParams_default)
        (example_structure\<lparr>altLoc := (\<lambda>unit index. if index = 0 then ''A'' else [])\<rparr>)
        (example_info 0) (example_info 1) 9 = Some HalogenBond
   \<and> getType (createTester HalogenBondsParams_default)
        (example_structure\<lparr>altLoc := (\<lambda>unit index. [])\<rparr>)
        (example_info 0) (example_info 1) 9 = Some HalogenBond"
  using altLoc_rejection [of "example_info 0" "example_info 1" "example_info 0" "example_info 1"
      "example_structure\<lparr>altLoc := (\<lambda>unit index. if index = 0 then ''A'' else ''B'')\<rparr>"
      HalogenBondsParams_default 9]
    altLoc_rejection [of "example_info 0" "example_info 1" "example_info 0" "example_info 1"
      "example_structure\<lparr>altLoc := (\<lambda>unit index. if index = 0 then ''A'' else [])\<rparr>"
      HalogenBondsParams_default 9]
  by (simp add: tester_defs example_defs)


section \<open>The intra-unit pair scan\<close>

lemma testPair_arrays:
  "aIndices (testPair st infoA infoB ts p b) = aIndices b @ map fst (pairLinks st infoA infoB ts p)
   \<and> bIndices (testPair st infoA infoB ts p b) = bIndices b @ map (fst \<circ> snd) (pairLinks st infoA infoB ts p)
   \<and> linkTypes (testPair st infoA infoB ts p b) = linkTypes b @ map (snd \<circ> snd) (pairLinks st infoA infoB ts p)"
proof (induction ts arbitrary: b)
  case Nil
  then show ?case by (cases p) (simp add: testPair_def pairLinks_def)
next
  case (Cons t ts)
  obtain i j d where p: "p = (i, j, d)" by (cases p) auto
  let ?b' = "if d < maxDistanceSq t
           then (case getType t st (infoA\<lparr>info_feature := i\<rparr>) (infoB\<lparr>info_feature := j\<rparr>) d of
                   Some type \<Rightarrow> add i j type b | None \<Rightarrow> b) else b"
  have l: "aIndices ?b' = aIndices b @ map fst (pairLinks st infoA infoB [t] p)"
     "bIndices ?b' = bIndices b @ map (fst \<circ> snd) (pairLinks st infoA infoB [t] p)"
     "linkTypes ?b' = linkTypes b @ map (snd \<circ> snd) (pairLinks st infoA infoB [t] p)"
    by (auto simp: p pairLinks_def add_def split: option.splits)
  have step: "testPair st infoA infoB (t # ts) p b = testPair st infoA infoB ts p ?b'"
    by (simp add: testPair_def p)
  have app: "pairLinks st infoA infoB (t # ts) p = pairLinks st infoA infoB [t] p @ pairLinks st infoA infoB ts p"
    by (simp add: pairLinks_def p)
  show ?case using Cons.IH [of ?b'] l by (simp add: step app)
qed

lemma fold_testPair_arrays:
  "aIndices (fold (testPair st infoA infoB ts) ps b)
     = aIndices b @ map fst (concat (map (pairLinks st infoA infoB ts) ps))
   \<and> bIndices (fold (testPair st infoA infoB ts) ps b)
     = bIndices b @ map (fst \<circ> snd) (concat (map (pairLinks st infoA infoB ts) ps))
   \<and> linkTypes (fold (testPair st infoA infoB ts) ps b)
     = linkTypes b @ map (snd \<circ> snd) (concat (map (pairLinks st infoA infoB ts) ps))"
proof (induction ps arbitrary: b)
  case Nil
  then show ?case by simp
next
  case (Cons p ps)
  show ?case
    using Cons.IH [of "testPair st infoA infoB ts p b"] testPair_arrays [of st infoA infoB ts p b]
    by simp
qed

lemma zip_projections: "zip (map fst xs) (zip (map (fst \<circ> snd) xs) (map (snd \<circ> snd) xs)) = xs"
  by (induction xs) auto

lemma recorded_fold_testPair:
  "recorded b (fold (testPair st infoA infoB ts) ps b) = concat (map (pairLinks st infoA infoB ts) ps)"
  unfolding recorded_def
  using fold_testPair_arrays [of st infoA infoB ts ps b]
  by (simp add: zip_projections)

lemma addUnitLinks_recorded:
  assumes "addUnitLinks st u fs b ts = Inr b'"
  obtains info where "Info st u fs = Inr info"
    and "recorded b b' = concat (map (pairLinks st info info ts) (scannedPairs fs (maxOf (map maxDistanceSq ts))))"
  using assms
  by (auto simp: addUnitLinks_def Let_def recorded_fold_testPair split: sum.splits)

lemma pairLinks_ordered:
  "(a, c, t) \<in> set (pairLinks st infoA infoB ts (i, j, d)) \<Longrightarrow> a = i \<and> c = j"
  by (auto simp: pairLinks_def split: if_splits option.splits)

lemma scannedPairs_less:
  "(i, j, d) \<in> set (scannedPairs fs r) \<Longrightarrow> i < j"
  by (auto simp: scannedPairs_def)

lemma findNeighbours_distinct: "distinct (map fst (findNeighbours fs i r))"
proof (cases r)
  case None
  then show ?thesis by (simp add: findNeighbours_def)
next
  case (Some a)
  have H: "map fst (filter P (map (\<lambda>j. (j, g j)) xs)) = filter (\<lambda>j. P (j, g j)) xs"
    for P and g :: "nat \<Rightarrow> real" and xs :: "nat list"
    by (induction xs) auto
  show ?thesis using Some by (simp add: findNeighbours_def lookup3d_find_def H)
qed

lemma distinct_concat_upt:
  assumes "\<And>i. distinct (map g (F i))" and "\<And>i x. x \<in> set (F i) \<Longrightarrow> h (g x) = i"
  shows "distinct (map g (concat (map F [0..<n])))"
proof (induction n)
  case 0
  then show ?case by simp
next
  case (Suc n)
  have "set (map g (concat (map F [0..<n]))) \<inter> set (map g (F n)) = {}"
  proof (rule ccontr)
    assume "\<not> ?thesis"
    then obtain v where v1: "v \<in> set (map g (concat (map F [0..<n])))" and v2: "v \<in> set (map g (F n))" by auto
    from v1 obtain i x where "i < n" "x \<in> set (F i)" "v = g x" by auto
    then have "h v = i" using assms(2) by simp
    moreover from v2 obtain y where "y \<in> set (F n)" "v = g y" by auto
    then have "h v = n" using assms(2) by simp
    ultimately show False using \<open>i < n\<close> by simp
  qed
  then show ?case using Suc assms(1) by simp
qed

lemma scannedPairs_distinct:
  "distinct (map (\<lambda>(i, j, d). (i, j)) (scannedPairs fs r))"
  unfolding scannedPairs_def
proof (rule distinct_concat_upt [where h = fst])
  fix i :: nat
  have "map ((\<lambda>(i, j, d). (i, j)) \<circ> (\<lambda>(j, distanceSq). (i, j, distanceSq))) xs = map (\<lambda>j. (i, j)) (map fst xs)" for xs :: "(nat \<times> real) list"
    by (induction xs) auto
  moreover have "distinct (map fst (filter (\<lambda>(j, distanceSq). \<not> j \<le> i) (findNeighbours fs i r)))"
    using findNeighbours_distinct [of fs i r] by (simp add: distinct_map_filter)
  ultimately show "distinct (map (\<lambda>(i, j, d). (i, j)) (map (\<lambda>(j, distanceSq). (i, j, distanceSq))
                        (filter (\<lambda>(j, distanceSq). \<not> j \<le> i) (findNeighbours fs i r))))"
    by (simp add: distinct_map inj_on_def)
next
  fix i x
  assume "x \<in> set (map (\<lambda>(j, distanceSq). (i, j, distanceSq))
                        (filter (\<lambda>(j, distanceSq). \<not> j \<le> i) (findNeighbours fs i r)))"
  then show "fst (case x of (i, j, d) \<Rightarrow> (i, j)) = i" by auto
qed

lemma unordered_distinct:
  assumes "distinct (map (\<lambda>(i, j, d). (i, j)) ps)" and "\<And>i j d. (i, j, d) \<in> set ps \<Longrightarrow> i < j"
  shows "distinct (map (\<lambda>(i, j, d). {i, j}) (ps :: (nat \<times> nat \<times> real) list))"
proof -
  have eq: "map (\<lambda>(i, j, d). {i, j}) ps = map (\<lambda>(i, j). {i, j}) (map (\<lambda>(i, j, d). (i, j)) ps)"
    by (induction ps) auto
  have inj: "inj_on (\<lambda>(i, j). {i, j}) (set (map (\<lambda>(i, j, d). (i, j)) ps))"
  proof (rule inj_onI)
    fix x y :: "nat \<times> nat"
    assume x: "x \<in> set (map (\<lambda>(i, j, d). (i, j)) ps)"
      and y: "y \<in> set (map (\<lambda>(i, j, d). (i, j)) ps)"
      and e: "(case x of (i, j) \<Rightarrow> {i, j}) = (case y of (i, j) \<Rightarrow> {i, j})"
    obtain i j where xe: "x = (i, j)" by (cases x) auto
    obtain i' j' where ye: "y = (i', j')" by (cases y) auto
    from x xe obtain d where "(i, j, d) \<in> set ps" by auto
    then have 1: "i < j" by (rule assms(2))
    from y ye obtain d' where "(i', j', d') \<in> set ps" by auto
    then have 2: "i' < j'" by (rule assms(2))
    from e xe ye have "{i, j} = {i', j'}" by simp
    then have "(i = i' \<and> j = j') \<or> (i = j' \<and> j = i')" by (simp add: doubleton_eq_iff)
    with 1 2 show "x = y" using xe ye by auto
  qed
  have "distinct (map (\<lambda>(i, j). {i, j}) (map (\<lambda>(i, j, d). (i, j)) ps))"
    by (rule distinct_map [THEN iffD2, OF conjI [OF assms(1) inj]])
  then show ?thesis by (simp only: eq)
qed

lemma upt_0_2: "[0..<2] = [0, 1]"
  by (simp add: numeral_2_eq_2)

lemmas scan_defs =
  upt_0_2 addUnitLinks_def Info_def scannedPairs_def findNeighbours_def lookup3d_find_def
  squaredDistance_def testPair_def add_def IntraLinksBuilder_create_def recorded_def

lemma example_links_4:
  "addUnitLinks example_structure example_unit example_features IntraLinksBuilder_create
     [createTester HalogenBondsParams_default]
   = Inr \<lparr>aIndices = [0], bIndices = [1], linkTypes = [HalogenBond]\<rparr>"
  by (simp add: scan_defs tester_defs example_defs)

lemma example_links_5:
  "addUnitLinks example_structure example_unit example_features IntraLinksBuilder_create
     [createTester \<lparr>distanceMax = 5, angleMax = 30\<rparr>]
   = Inr \<lparr>aIndices = [0], bIndices = [1], linkTypes = [HalogenBond]\<rparr>"
  by (simp add: scan_defs tester_defs example_defs)

lemma example_links_2:
  "addUnitLinks example_structure example_unit example_features IntraLinksBuilder_create
     [createTester \<lparr>distanceMax = 2, angleMax = 30\<rparr>]
   = Inr \<lparr>aIndices = [], bIndices = [], linkTypes = []\<rparr>"
  by (simp add: scan_defs tester_defs example_defs)

lemma example_scan:
  "scannedPairs example_features (maxOf (map maxDistanceSq [createTester HalogenBondsParams_default])) = [(0, 1, 9)]"
  by (simp add: scan_defs tester_defs example_defs)


text \<open>
  C7. Every edge \<^verbatim>\<open>addUnitLinks\<close> records has \<open>indexA < indexB\<close>, so no edge is a
  self-loop: every pair that reaches the tester loop has \<open>i < j\<close>, and no unordered
  pair \<open>{i, j}\<close> reaches it twice, so each tester is asked about it at most once.
\<close>

theorem addUnitLinks_ordered_pairs:
  assumes "addUnitLinks structure unit features b testers = Inr b'"
  shows "(\<forall>(indexA, indexB, type) \<in> set (recorded b b'). indexA < indexB)
       \<and> (\<forall>(i, j, distanceSq) \<in> set (scannedPairs features (maxOf (map maxDistanceSq testers))). i < j)
       \<and> distinct (map (\<lambda>(i, j, distanceSq). {i, j})
            (scannedPairs features (maxOf (map maxDistanceSq testers))))"
proof (intro conjI)
  let ?ps = "scannedPairs features (maxOf (map maxDistanceSq testers))"
  show "\<forall>(i, j, d) \<in> set ?ps. i < j"
    using scannedPairs_less by (simp add: case_prod_unfold split_paired_all)
  show "distinct (map (\<lambda>(i, j, distanceSq). {i, j}) ?ps)"
    by (rule unordered_distinct [OF scannedPairs_distinct scannedPairs_less])
  obtain info where rec: "recorded b b' = concat (map (pairLinks structure info info testers) ?ps)"
    using assms by (rule addUnitLinks_recorded)
  have "indexA < indexB" if "(indexA, indexB, type) \<in> set (recorded b b')" for indexA indexB type
  proof -
    from that rec obtain p where p: "p \<in> set ?ps" "(indexA, indexB, type) \<in> set (pairLinks structure info info testers p)"
      by auto
    obtain i j d where pe: "p = (i, j, d)" by (cases p) auto
    have "indexA = i \<and> indexB = j" using p(2) unfolding pe by (rule pairLinks_ordered)
    moreover have "i < j" using p(1) unfolding pe by (rule scannedPairs_less)
    ultimately show ?thesis by simp
  qed
  then show "\<forall>(indexA, indexB, type) \<in> set (recorded b b'). indexA < indexB"
    by (simp add: case_prod_unfold split_paired_all)
qed

theorem addUnitLinks_ordered_pairs_witness:
  "addUnitLinks example_structure example_unit example_features IntraLinksBuilder_create
     [createTester HalogenBondsParams_default]
     = Inr \<lparr>aIndices = [0], bIndices = [1], linkTypes = [HalogenBond]\<rparr>
   \<and> recorded IntraLinksBuilder_create \<lparr>aIndices = [0], bIndices = [1], linkTypes = [HalogenBond]\<rparr>
     = [(0, 1, HalogenBond)]
   \<and> scannedPairs example_features
       (maxOf (map maxDistanceSq [createTester HalogenBondsParams_default])) = [(0, 1, 9)]
   \<and> distinct (map (\<lambda>(i, j, distanceSq). {i, j}) [(0 :: nat, 1 :: nat, 9 :: real)])"
  using addUnitLinks_ordered_pairs [OF example_links_4] example_links_4 example_scan
  by (simp add: recorded_def IntraLinksBuilder_create_def)



lemma pairLinks_iff:
  "(a, c, t) \<in> set (pairLinks st infoA infoB ts (i, j, d)) \<longleftrightarrow>
     a = i \<and> c = j \<and> (\<exists>tester \<in> set ts. d < maxDistanceSq tester
        \<and> getType tester st (infoA\<lparr>info_feature := i\<rparr>) (infoB\<lparr>info_feature := j\<rparr>) d = Some t)"
proof
  assume "(a, c, t) \<in> set (pairLinks st infoA infoB ts (i, j, d))"
  then show "a = i \<and> c = j \<and> (\<exists>tester \<in> set ts. d < maxDistanceSq tester
        \<and> getType tester st (infoA\<lparr>info_feature := i\<rparr>) (infoB\<lparr>info_feature := j\<rparr>) d = Some t)"
    by (auto simp: pairLinks_def split: if_splits option.splits)
next
  assume "a = i \<and> c = j \<and> (\<exists>tester \<in> set ts. d < maxDistanceSq tester
        \<and> getType tester st (infoA\<lparr>info_feature := i\<rparr>) (infoB\<lparr>info_feature := j\<rparr>) d = Some t)"
  then show "(a, c, t) \<in> set (pairLinks st infoA infoB ts (i, j, d))"
    by (force simp: pairLinks_def)
qed

lemma maxOf_Max: "xs \<noteq> [] \<Longrightarrow> maxOf xs = Some (Max (set xs))"
  by (cases xs) (simp_all add: Max.set_eq_fold [symmetric])

lemma testHalogenBond_angleMax:
  "opt_angleMax opts = opt_angleMax opts' \<Longrightarrow>
     testHalogenBond st infoA infoB opts = testHalogenBond st infoA infoB opts'"
  unfolding testHalogenBond_def by (simp add: Let_def split: prod.split)

lemma getType_createTester_angle:
  "angleMax p1 = angleMax p2 \<Longrightarrow> getType (createTester p1) = getType (createTester p2)"
  using testHalogenBond_angleMax [of "getOptions p1" "getOptions p2"]
  by (simp add: createTester_def getOptions_def Let_def fun_eq_iff)

lemma lookup3d_find_mono:
  assumes "0 \<le> r1" "r1 \<le> r2"
  shows "set (lookup3d_find fs px py pz r1) \<subseteq> set (lookup3d_find fs px py pz r2)"
proof -
  have "r1 * r1 \<le> r2 * r2" using assms by (simp add: mult_mono)
  then show ?thesis by (auto simp: lookup3d_find_def)
qed

lemma scannedPairs_mono:
  assumes "0 \<le> r1" "r1 \<le> r2"
  shows "set (scannedPairs fs (Some r1)) \<subseteq> set (scannedPairs fs (Some r2))"
  using lookup3d_find_mono [OF assms]
  by (fastforce simp: scannedPairs_def findNeighbours_def)

lemma radius_mono:
  fixes d1 d2 :: real
  assumes "0 \<le> d1" "d1 \<le> d2" and m: "maxDistanceSq t1 = d1 * d1" "maxDistanceSq t2 = d2 * d2"
  shows "\<exists>r1 r2. maxOf (map maxDistanceSq (pre @ t1 # post)) = Some r1
           \<and> maxOf (map maxDistanceSq (pre @ t2 # post)) = Some r2 \<and> 0 \<le> r1 \<and> r1 \<le> r2"
proof -
  let ?S = "set (map maxDistanceSq pre) \<union> set (map maxDistanceSq post)"
  have fin: "finite ?S" by simp
  have sq: "d1 * d1 \<le> d2 * d2" using assms(1,2) by (simp add: mult_mono)
  have 1: "maxOf (map maxDistanceSq (pre @ t1 # post)) = Some (Max (insert (d1 * d1) ?S))"
    using maxOf_Max [of "map maxDistanceSq (pre @ t1 # post)"] m by (simp add: Un_commute insert_commute)
  have 2: "maxOf (map maxDistanceSq (pre @ t2 # post)) = Some (Max (insert (d2 * d2) ?S))"
    using maxOf_Max [of "map maxDistanceSq (pre @ t2 # post)"] m by (simp add: Un_commute insert_commute)
  have "d1 * d1 \<le> Max (insert (d1 * d1) ?S)" using fin by (intro Max_ge) auto
  then have 3: "0 \<le> Max (insert (d1 * d1) ?S)" using mult_nonneg_nonneg [OF assms(1) assms(1)] by linarith
  have "Max (insert (d1 * d1) ?S) \<le> Max (insert (d2 * d2) ?S)"
  proof (rule Max.boundedI)
    show "finite (insert (d1 * d1) ?S)" using fin by simp
    show "insert (d1 * d1) ?S \<noteq> {}" by simp
    fix a assume "a \<in> insert (d1 * d1) ?S"
    then consider "a = d1 * d1" | "a \<in> ?S" by auto
    then show "a \<le> Max (insert (d2 * d2) ?S)"
    proof cases
      case 1
      have "d2 * d2 \<le> Max (insert (d2 * d2) ?S)" using fin by (intro Max_ge) auto
      with sq 1 show ?thesis by linarith
    next
      case 2
      then show ?thesis using fin by (intro Max_ge) auto
    qed
  qed
  with 1 2 3 show ?thesis by blast
qed

text \<open>
  C6. Two halogen-bond parameter sets with the same \<^verbatim>\<open>angleMax\<close> and
  \<open>0 \<le> d1 \<le> d2\<close> for \<^verbatim>\<open>distanceMax\<close> (the declared range is 1 to 5): when the
  scan with the tester made from \<open>d1\<close> returns, so does the scan with the tester made
  from \<open>d2\<close>, and every edge the first records, with its interaction type, the second
  records too. Any other testers in the list are the same in both runs.
\<close>

theorem addUnitLinks_cutoff_monotone:
  assumes "0 \<le> distanceMax p1" and "distanceMax p1 \<le> distanceMax p2"
    and "angleMax p1 = angleMax p2"
    and "addUnitLinks structure unit features b (pre @ createTester p1 # post) = Inr b1"
  shows "\<exists>b2. addUnitLinks structure unit features b (pre @ createTester p2 # post) = Inr b2
           \<and> set (recorded b b1) \<subseteq> set (recorded b b2)"
proof -
  let ?t1 = "createTester p1" and ?t2 = "createTester p2"
  let ?ts1 = "pre @ ?t1 # post" and ?ts2 = "pre @ ?t2 # post"
  have m: "maxDistanceSq ?t1 = distanceMax p1 * distanceMax p1"
          "maxDistanceSq ?t2 = distanceMax p2 * distanceMax p2"
    by (simp_all add: createTester_def Let_def)
  obtain r1 r2 where r: "maxOf (map maxDistanceSq ?ts1) = Some r1"
      "maxOf (map maxDistanceSq ?ts2) = Some r2" "0 \<le> r1" "r1 \<le> r2"
    using radius_mono [OF assms(1,2) m, of pre post] by blast
  obtain info where info: "Info structure unit features = Inr info"
    and rec1: "recorded b b1 = concat (map (pairLinks structure info info ?ts1)
         (scannedPairs features (maxOf (map maxDistanceSq ?ts1))))"
    using assms(4) by (rule addUnitLinks_recorded)
  define b2 where "b2 = fold (testPair structure info info ?ts2)
       (scannedPairs features (maxOf (map maxDistanceSq ?ts2))) b"
  have run2: "addUnitLinks structure unit features b ?ts2 = Inr b2"
    by (simp add: addUnitLinks_def info Let_def b2_def)
  have rec2: "recorded b b2 = concat (map (pairLinks structure info info ?ts2)
         (scannedPairs features (maxOf (map maxDistanceSq ?ts2))))"
    unfolding b2_def by (rule recorded_fold_testPair)
  have sq: "distanceMax p1 * distanceMax p1 \<le> distanceMax p2 * distanceMax p2"
    using assms(1,2) by (simp add: mult_mono)
  have "e \<in> set (recorded b b2)" if e: "e \<in> set (recorded b b1)" for e
  proof -
    obtain a c t where ee: "e = (a, c, t)" by (cases e) auto
    from e rec1 r(1) obtain p where p: "p \<in> set (scannedPairs features (Some r1))"
        and l: "e \<in> set (pairLinks structure info info ?ts1 p)" by auto
    obtain i j d where pe: "p = (i, j, d)" by (cases p) auto
    from l have "a = i \<and> c = j \<and> (\<exists>tester \<in> set ?ts1. d < maxDistanceSq tester
        \<and> getType tester structure (info\<lparr>info_feature := i\<rparr>) (info\<lparr>info_feature := j\<rparr>) d = Some t)"
      unfolding ee pe by (simp only: pairLinks_iff)
    then obtain tester where ac: "a = i" "c = j" and t: "tester \<in> set ?ts1" "d < maxDistanceSq tester"
        "getType tester structure (info\<lparr>info_feature := i\<rparr>) (info\<lparr>info_feature := j\<rparr>) d = Some t"
      by blast
    have "\<exists>tester' \<in> set ?ts2. d < maxDistanceSq tester'
        \<and> getType tester' structure (info\<lparr>info_feature := i\<rparr>) (info\<lparr>info_feature := j\<rparr>) d = Some t"
    proof (cases "tester = ?t1")
      case True
      have "d < maxDistanceSq ?t2" using t(2) sq unfolding True m by linarith
      moreover have "getType ?t2 structure (info\<lparr>info_feature := i\<rparr>) (info\<lparr>info_feature := j\<rparr>) d = Some t"
        using t(3) True getType_createTester_angle [OF assms(3)] by simp
      ultimately show ?thesis by auto
    next
      case False
      then have "tester \<in> set ?ts2" using t(1) by auto
      then show ?thesis using t(2,3) by blast
    qed
    then have "(a, c, t) \<in> set (pairLinks structure info info ?ts2 (i, j, d))"
      using ac by (simp only: pairLinks_iff)
    moreover have "p \<in> set (scannedPairs features (Some r2))"
      using p scannedPairs_mono [OF r(3,4)] by blast
    ultimately have "(a, c, t) \<in> set (concat (map (pairLinks structure info info ?ts2)
         (scannedPairs features (Some r2))))"
      using pe by auto
    then show ?thesis by (simp only: rec2 r(2) ee)
  qed
  with run2 show ?thesis by blast
qed

theorem addUnitLinks_cutoff_monotone_witness:
  "0 \<le> distanceMax HalogenBondsParams_default
   \<and> distanceMax HalogenBondsParams_default \<le> distanceMax \<lparr>distanceMax = 5, angleMax = 30\<rparr>
   \<and> angleMax HalogenBondsParams_default = angleMax \<lparr>distanceMax = 5, angleMax = 30\<rparr>
   \<and> addUnitLinks example_structure example_unit example_features IntraLinksBuilder_create
        ([] @ createTester HalogenBondsParams_default # [])
       = Inr \<lparr>aIndices = [0], bIndices = [1], linkTypes = [HalogenBond]\<rparr>
   \<and> addUnitLinks example_structure example_unit example_features IntraLinksBuilder_create
        ([] @ createTester \<lparr>distanceMax = 5, angleMax = 30\<rparr> # [])
       = Inr \<lparr>aIndices = [0], bIndices = [1], linkTypes = [HalogenBond]\<rparr>
   \<and> recorded IntraLinksBuilder_create \<lparr>aIndices = [0], bIndices = [1], linkTypes = [HalogenBond]\<rparr>
       = [(0, 1, HalogenBond)]"
  using addUnitLinks_cutoff_monotone [of HalogenBondsParams_default
      "\<lparr>distanceMax = 5, angleMax = 30\<rparr>" example_structure example_unit example_features
      IntraLinksBuilder_create "[]" "[]" "\<lparr>aIndices = [0], bIndices = [1], linkTypes = [HalogenBond]\<rparr>"]
    example_links_4 example_links_5
  by (simp add: HalogenBondsParams_default_def IntraLinksBuilder_create_def recorded_def)

end
